theory Spec2Isabelle
  imports Complex_Main
begin

section \<open>Nearest-neighbour matching of the notebook L3/06_nearest-neighbor-faster\<close>

text \<open>
  The notebook defines two functions, \<open>get_nearest\<close> and \<open>nearest_neighbor\<close>.
  Python floats are modelled as the reals, so every statement below is about the values
  the arithmetic denotes, not about rounding.  A raised exception is a value
  \<open>Inl (Raise name)\<close> where \<open>name\<close> is the class of the exception.
\<close>

subsection \<open>Exceptions, points and arrays\<close>

datatype exn = Raise string

text \<open>A shapely Point: \<open>geom.x\<close> is the first component, \<open>geom.y\<close> the second.\<close>

type_synonym point = "real \<times> real"

text \<open>
  A numpy array built by \<open>np.array\<close> from a list of pairs: shape (n, 2) for a list of
  n > 0 pairs.  The empty list stands for \<open>np.array([])\<close>, whose shape is (0,).
\<close>

type_synonym ndarray = "(real \<times> real) list"

subsection \<open>The library: scikit-learn's BallTree with the haversine metric\<close>

text \<open>
  Modelled from the spec: \<open>sklearn.neighbors.BallTree\<close> and its metric are third-party
  code that the notebook imports; they are not part of src/.  For the result of a query
  the definitions follow the contract of section 4.2 of the specification: the k nearest
  candidate indices, sorted by ascending distance, identical to a brute-force evaluation
  of the metric.  Where the specification is silent, or names exception classes that the
  notebook never defines, they follow the library's documented behaviour:
  \<^item> the metric is
    \<open>D(x, y) = 2 arcsin (sqrt (sin\<^sup>2((x1 - y1)/2) + cos(x1) cos(y1) sin\<^sup>2((x2 - y2)/2)))\<close>,
    with the first coordinate of each point taken as the latitude and the second as the
    longitude, both in radians;
  \<^item> the constructor and the query validate their array argument and raise
    \<open>ValueError\<close> for an array without samples;
  \<^item> the query raises \<open>ValueError\<close> when k exceeds the number of indexed points.

  The library documents the query for k \<ge> 1 only.  At k = 0 the definitions follow the
  shapes of the arrays: the query returns arrays with rows of length 0.  At k < 0 numpy
  refuses the negative dimension of the result arrays with \<open>ValueError\<close>.  Equidistant candidates
  are returned in ascending index order here; the library leaves their order open.  The
  leaf size does not affect the result of a query.
\<close>

definition haversine_rdist :: "real \<times> real \<Rightarrow> real \<times> real \<Rightarrow> real" where
  "haversine_rdist x1 x2 =
     (let sin_0 = sin (0.5 * (fst x1 - fst x2));
          sin_1 = sin (0.5 * (snd x1 - snd x2))
      in sin_0 * sin_0 + cos (fst x1) * cos (fst x2) * sin_1 * sin_1)"

definition haversine_dist :: "real \<times> real \<Rightarrow> real \<times> real \<Rightarrow> real" where
  "haversine_dist x1 x2 = 2 * arcsin (sqrt (haversine_rdist x1 x2))"

record ball_tree =
  data :: ndarray
  leaf_size :: nat

definition BallTree :: "ndarray \<Rightarrow> nat \<Rightarrow> exn + ball_tree" where
  "BallTree X leaf =
     (if X = [] then Inl (Raise ''ValueError'')
      else Inr \<lparr>data = X, leaf_size = leaf\<rparr>)"

text \<open>The indices of the k indexed points nearest to x, by ascending distance.\<close>

definition k_nearest :: "ball_tree \<Rightarrow> real \<times> real \<Rightarrow> nat \<Rightarrow> nat list" where
  "k_nearest tree x k =
     take k (sort_key (\<lambda>i. haversine_dist x (data tree ! i)) [0..<length (data tree)])"

definition tree_query :: "ball_tree \<Rightarrow> ndarray \<Rightarrow> int \<Rightarrow> exn + (real list list \<times> nat list list)" where
  "tree_query tree X k =
     (if X = [] then Inl (Raise ''ValueError'')
      else if int (length (data tree)) < k then Inl (Raise ''ValueError'')
      else if k < 0 then Inl (Raise ''ValueError'')
      else Inr (map (\<lambda>x. map (\<lambda>i. haversine_dist x (data tree ! i)) (k_nearest tree x (nat k))) X,
                map (\<lambda>x. k_nearest tree x (nat k)) X))"

subsection \<open>get_nearest\<close>

text \<open>\<open>a[0]\<close> on the first axis of an array: IndexError when the axis has size 0.\<close>

definition getitem_0 :: "'a list \<Rightarrow> exn + 'a" where
  "getitem_0 a = (case a of [] \<Rightarrow> Inl (Raise ''IndexError'') | r # _ \<Rightarrow> Inr r)"

definition get_nearest :: "ndarray \<Rightarrow> ndarray \<Rightarrow> int \<Rightarrow> exn + (nat list \<times> real list)" where
  "get_nearest src_points candidates k_neighbors =
     (case BallTree candidates 15 of
        Inl e \<Rightarrow> Inl e
      | Inr tree \<Rightarrow>
         (case tree_query tree src_points k_neighbors of
            Inl e \<Rightarrow> Inl e
          | Inr (distances, indices) \<Rightarrow>
             (let distances = transpose distances;
                  indices = transpose indices
              in case getitem_0 indices of
                   Inl e \<Rightarrow> Inl e
                 | Inr closest \<Rightarrow>
                    (case getitem_0 distances of
                       Inl e \<Rightarrow> Inl e
                     | Inr closest_dist \<Rightarrow> Inr (closest, closest_dist)))))"

subsection \<open>GeoDataFrames and nearest_neighbor\<close>

text \<open>
  A GeoDataFrame is its list of rows.  A row has its index label, the Point of the
  geometry column, the values of the other columns, and the value of the column
  \<open>distance\<close> when the frame has one.
\<close>

record 'a row =
  label :: int
  geometry :: point
  attrs :: 'a
  distance :: "real option"

type_synonym 'a gdf = "'a row list"

definition copy :: "'a gdf \<Rightarrow> 'a gdf" where
  "copy df = df"

text \<open>\<open>reset_index(drop=True)\<close>: the labels become 0, 1, ..., the old ones are dropped.\<close>

definition reset_index :: "'a gdf \<Rightarrow> 'a gdf" where
  "reset_index df = map2 (\<lambda>i r. r\<lparr>label := int i\<rparr>) [0..<length df] df"

text \<open>
  \<open>df.loc[labels]\<close>: for each label in turn the rows that carry it; KeyError when a
  label is missing from the index.
\<close>

fun loc :: "'a gdf \<Rightarrow> int list \<Rightarrow> exn + 'a gdf" where
  "loc df [] = Inr []"
| "loc df (l # ls) =
     (case filter (\<lambda>r. label r = l) df of
        [] \<Rightarrow> Inl (Raise ''KeyError'')
      | rs \<Rightarrow> (case loc df ls of Inl e \<Rightarrow> Inl e | Inr rest \<Rightarrow> Inr (rs @ rest)))"

text \<open>
  \<open>df['distance'] = values\<close> for an array of values: ValueError when the length of the
  array is not the number of rows.
\<close>

definition set_distance :: "'a gdf \<Rightarrow> real list \<Rightarrow> exn + 'a gdf" where
  "set_distance df vals =
     (if length vals \<noteq> length df then Inl (Raise ''ValueError'')
      else Inr (map2 (\<lambda>r d. r\<lparr>distance := Some d\<rparr>) df vals))"

text \<open>The lambda of the notebook: \<open>(geom.x * np.pi / 180, geom.y * np.pi / 180)\<close>.\<close>

definition to_radians :: "point \<Rightarrow> real \<times> real" where
  "to_radians geom = (fst geom * pi / 180, snd geom * pi / 180)"

definition earth_radius :: real where
  "earth_radius = 6371000"

definition nearest_neighbor :: "'a gdf \<Rightarrow> 'b gdf \<Rightarrow> bool \<Rightarrow> exn + 'b gdf" where
  "nearest_neighbor left_gdf right_gdf return_dist =
     (let right = reset_index (copy right_gdf);
          left_radians = map (\<lambda>r. to_radians (geometry r)) left_gdf;
          right_radians = map (\<lambda>r. to_radians (geometry r)) right
      in case get_nearest left_radians right_radians 1 of
           Inl e \<Rightarrow> Inl e
         | Inr (closest, dist_rad) \<Rightarrow>
            (case loc right (map int closest) of
               Inl e \<Rightarrow> Inl e
             | Inr closest_points \<Rightarrow>
                (let closest_points = reset_index closest_points
                 in if return_dist
                    then set_distance closest_points (map (\<lambda>d. d * earth_radius) dist_rad)
                    else Inr closest_points)))"

subsection \<open>Auxiliary definitions\<close>

text \<open>
  Not functions of the notebook: the index that the query of \<open>nearest_neighbor\<close>
  selects for one Point, and the row that \<open>nearest_neighbor\<close> returns for the query
  row at position j.  They only serve to state what \<open>nearest_neighbor\<close> computes.
\<close>

definition nearest_idx :: "'b gdf \<Rightarrow> point \<Rightarrow> nat" where
  "nearest_idx right g =
     hd (k_nearest \<lparr>data = map (\<lambda>r. to_radians (geometry r)) right, leaf_size = 15\<rparr>
           (to_radians g) (Suc 0))"

definition match_row :: "'b gdf \<Rightarrow> bool \<Rightarrow> nat \<Rightarrow> point \<Rightarrow> 'b row" where
  "match_row right rd j g =
     (let i = nearest_idx right g
      in (right ! i)\<lparr>label := int j,
                      distance := (if rd then Some (haversine_dist (to_radians g)
                                       (to_radians (geometry (right ! i))) * earth_radius)
                                   else distance (right ! i))\<rparr>)"

subsection \<open>The reference: great-circle distance\<close>

text \<open>
  The haversine formula of the specification's glossary, for two Points given as
  (longitude, latitude) in decimal degrees: the central angle, in radians, between the
  two places on the sphere.  This is the distance that a brute-force scan compares.
\<close>

definition great_circle :: "point \<Rightarrow> point \<Rightarrow> real" where
  "great_circle p q =
     (let lon1 = fst p * pi / 180; lat1 = snd p * pi / 180;
          lon2 = fst q * pi / 180; lat2 = snd q * pi / 180
      in 2 * arcsin (sqrt ((sin ((lat1 - lat2) / 2))\<^sup>2
                          + cos lat1 * cos lat2 * (sin ((lon1 - lon2) / 2))\<^sup>2)))"

subsection \<open>The same function on a store of frames\<close>

text \<open>
  To speak of what a call leaves behind, the frames live in a store: every address holds
  a frame, and the addresses below \<open>next_addr\<close> are the objects that exist.  A pandas call
  that returns a new object (\<open>copy\<close>, \<open>reset_index\<close> without \<open>inplace\<close>, \<open>loc\<close> with a
  list) allocates; the assignment \<open>closest_points['distance'] = ...\<close> writes to the
  object it is applied to.  \<open>nearest_neighbor_heap\<close> is \<open>nearest_neighbor\<close> statement
  by statement, on addresses.
\<close>

type_synonym addr = nat

record 'a store =
  frames :: "addr \<Rightarrow> 'a gdf"
  next_addr :: addr

definition alloc :: "'a gdf \<Rightarrow> 'a store \<Rightarrow> addr \<times> 'a store" where
  "alloc df s =
     (next_addr s, s\<lparr>frames := (frames s)(next_addr s := df), next_addr := Suc (next_addr s)\<rparr>)"

definition heap_copy :: "addr \<Rightarrow> 'a store \<Rightarrow> addr \<times> 'a store" where
  "heap_copy a s = alloc (copy (frames s a)) s"

definition heap_reset_index :: "addr \<Rightarrow> 'a store \<Rightarrow> addr \<times> 'a store" where
  "heap_reset_index a s = alloc (reset_index (frames s a)) s"

definition heap_loc :: "addr \<Rightarrow> int list \<Rightarrow> 'a store \<Rightarrow> (exn + addr) \<times> 'a store" where
  "heap_loc a labels s =
     (case loc (frames s a) labels of
        Inl e \<Rightarrow> (Inl e, s)
      | Inr df \<Rightarrow> (case alloc df s of (b, s') \<Rightarrow> (Inr b, s')))"

definition heap_set_distance :: "addr \<Rightarrow> real list \<Rightarrow> 'a store \<Rightarrow> (exn + unit) \<times> 'a store" where
  "heap_set_distance a vals s =
     (case set_distance (frames s a) vals of
        Inl e \<Rightarrow> (Inl e, s)
      | Inr df \<Rightarrow> (Inr (), s\<lparr>frames := (frames s)(a := df)\<rparr>))"

definition nearest_neighbor_heap :: "addr \<Rightarrow> addr \<Rightarrow> bool \<Rightarrow> 'a store \<Rightarrow> (exn + addr) \<times> 'a store" where
  "nearest_neighbor_heap left_gdf right_gdf return_dist s =
     (case heap_copy right_gdf s of (right_copy, s1) \<Rightarrow>
      case heap_reset_index right_copy s1 of (right, s2) \<Rightarrow>
      let left_radians = map (\<lambda>r. to_radians (geometry r)) (frames s2 left_gdf);
          right_radians = map (\<lambda>r. to_radians (geometry r)) (frames s2 right)
      in case get_nearest left_radians right_radians 1 of
           Inl e \<Rightarrow> (Inl e, s2)
         | Inr (closest, dist_rad) \<Rightarrow>
            (case heap_loc right (map int closest) s2 of
               (Inl e, s3) \<Rightarrow> (Inl e, s3)
             | (Inr located, s3) \<Rightarrow>
                (case heap_reset_index located s3 of (closest_points, s4) \<Rightarrow>
                 if return_dist
                 then (case heap_set_distance closest_points
                              (map (\<lambda>d. d * earth_radius) dist_rad) s4 of
                         (Inl e, s5) \<Rightarrow> (Inl e, s5)
                       | (Inr u, s5) \<Rightarrow> (Inr closest_points, s5))
                 else (Inr closest_points, s4))))"

section \<open>Auxiliary facts\<close>

subsection \<open>The first row of a transposed array\<close>

lemma getitem_0_transpose:
  assumes "xss \<noteq> []" and "\<forall>xs\<in>set xss. xs \<noteq> []"
  shows "getitem_0 (transpose xss) = Inr (map hd xss)"
proof -
  have ne: "transpose xss \<noteq> []"
    using assms by (auto simp: transpose_empty neq_Nil_conv)
  then have "0 < length (transpose xss)" by simp
  then have "transpose xss ! 0 = map (\<lambda>xs. xs ! 0) (filter (\<lambda>ys. 0 < length ys) xss)"
    by (rule nth_transpose)
  also have "filter (\<lambda>ys. 0 < length ys) xss = xss"
    using assms(2) by (simp add: filter_id_conv)
  also have "map (\<lambda>xs. xs ! 0) xss = map hd xss"
    using assms(2) by (simp add: hd_conv_nth)
  finally have "transpose xss ! 0 = map hd xss" .
  with ne show ?thesis
    by (cases "transpose xss") (simp_all add: getitem_0_def)
qed

lemma BallTree_Inr: "X \<noteq> [] \<Longrightarrow> BallTree X l = Inr \<lparr>data = X, leaf_size = l\<rparr>"
  by (simp add: BallTree_def)

lemma k_nearest_length: "length (k_nearest t x k) = min k (length (data t))"
  by (simp add: k_nearest_def min.commute)

lemma k_nearest_ne: "0 < k \<Longrightarrow> data t \<noteq> [] \<Longrightarrow> k_nearest t x k \<noteq> []"
proof
  assume "k_nearest t x k = []"
  then have "min k (length (data t)) = 0"
    using k_nearest_length [of t x k] by simp
  moreover assume "0 < k" "data t \<noteq> []"
  ultimately show False by (simp add: min_def split: if_splits)
qed

lemma hd_k_nearest: "0 < k \<Longrightarrow> hd (k_nearest t x k) = hd (k_nearest t x (Suc 0))"
  by (simp add: k_nearest_def hd_take)

lemma get_nearest_Inr:
  assumes "src \<noteq> []" "cands \<noteq> []" "0 < k" "k \<le> int (length cands)"
  shows "get_nearest src cands k =
     Inr (map (\<lambda>x. hd (k_nearest \<lparr>data = cands, leaf_size = 15\<rparr> x (Suc 0))) src,
          map (\<lambda>x. haversine_dist x (cands ! hd (k_nearest \<lparr>data = cands, leaf_size = 15\<rparr> x (Suc 0)))) src)"
proof -
  let ?t = "\<lparr>data = cands, leaf_size = 15\<rparr>"
  have k: "0 < nat k" using assms(3) by simp
  have ne: "\<And>x. k_nearest ?t x (nat k) \<noteq> []"
    using k assms(2) by (intro k_nearest_ne) simp_all
  have hk: "\<And>x. hd (k_nearest ?t x (nat k)) = hd (k_nearest ?t x (Suc 0))"
    using k by (rule hd_k_nearest)
  have i: "getitem_0 (transpose (map (\<lambda>x. k_nearest ?t x (nat k)) src))
      = Inr (map (\<lambda>x. hd (k_nearest ?t x (Suc 0))) src)"
    using assms ne by (subst getitem_0_transpose) (simp_all add: comp_def hk)
  have d: "getitem_0 (transpose (map (\<lambda>x. map (\<lambda>i. haversine_dist x (cands ! i)) (k_nearest ?t x (nat k))) src))
      = Inr (map (\<lambda>x. haversine_dist x (cands ! hd (k_nearest ?t x (Suc 0)))) src)"
    using assms ne by (subst getitem_0_transpose) (simp_all add: comp_def hd_map hk)
  have q: "tree_query ?t src k =
      Inr (map (\<lambda>x. map (\<lambda>i. haversine_dist x (cands ! i)) (k_nearest ?t x (nat k))) src,
           map (\<lambda>x. k_nearest ?t x (nat k)) src)"
    using assms by (simp add: tree_query_def)
  show ?thesis
    using assms(2) by (simp add: get_nearest_def BallTree_Inr q i d)
qed

lemma length_reset_index: "length (reset_index df) = length df"
  by (simp add: reset_index_def)

lemma get_nearest_no_candidates: "get_nearest src [] k = Inl (Raise ''ValueError'')"
  by (simp add: get_nearest_def BallTree_def)

lemma get_nearest_no_sources:
  "get_nearest [] cands k = Inl (Raise ''ValueError'')"
  by (simp add: get_nearest_def BallTree_def tree_query_def)

lemma get_nearest_k_too_large:
  "int (length cands) < k \<Longrightarrow> get_nearest src cands k = Inl (Raise ''ValueError'')"
  by (simp add: get_nearest_def BallTree_def tree_query_def)

lemma get_nearest_k_negative:
  "k < 0 \<Longrightarrow> get_nearest src cands k = Inl (Raise ''ValueError'')"
  by (simp add: get_nearest_def BallTree_def tree_query_def)

lemma transpose_empty_rows: "transpose (map (\<lambda>x. []) xs) = []"
  by (simp add: transpose_empty)

lemma get_nearest_zero:
  assumes "src \<noteq> []" "cands \<noteq> []"
  shows "get_nearest src cands 0 = Inl (Raise ''IndexError'')"
  using assms
  by (simp add: get_nearest_def BallTree_def tree_query_def k_nearest_def getitem_0_def
      transpose_empty_rows)

lemma haversine_rdist_bounds: "0 \<le> haversine_rdist x1 x2 \<and> haversine_rdist x1 x2 \<le> 1"
proof -
  define a where "a = fst x1"
  define b where "b = fst x2"
  define u where "u = (sin ((a - b) / 2))\<^sup>2"
  define v where "v = (sin ((snd x1 - snd x2) / 2))\<^sup>2"
  define p where "p = cos a * cos b"
  have h: "haversine_rdist x1 x2 = u + p * v"
    by (simp add: haversine_rdist_def Let_def u_def v_def p_def a_def b_def power2_eq_square
        algebra_simps)
  have u: "0 \<le> u" "u \<le> 1" by (simp_all add: u_def abs_square_le_1)
  have v: "0 \<le> v" "v \<le> 1" by (simp_all add: v_def abs_square_le_1)
  have "2 * ((a - b) / 2) = a - b" by simp
  then have "cos (a - b) = 1 - 2 * u"
    using cos_double_sin [of "(a - b) / 2"] by (simp only: u_def)
  then have p_eq: "p = (1 - 2 * u + cos (a + b)) / 2"
    by (simp add: p_def cos_times_cos)
  have p1: "- u \<le> p"
    using p_eq cos_ge_minus_one [of "a + b"] by argo
  have p2: "p \<le> 1 - u"
    using p_eq cos_le_one [of "a + b"] by argo
  note p = p1 p2
  have "- u * v \<le> p * v" using p(1) v(1) by (rule mult_right_mono)
  moreover have "0 \<le> u * (1 - v)" using u(1) v(2) by simp
  ultimately have lo: "0 \<le> u + p * v" by (simp add: algebra_simps)
  have "p * v \<le> (1 - u) * v" using p(2) v(1) by (rule mult_right_mono)
  moreover have "(1 - u) * v \<le> (1 - u) * 1" using v(2) u(2) by (intro mult_left_mono) simp_all
  ultimately have hi: "u + p * v \<le> 1" by simp
  from lo hi show ?thesis by (simp add: h)
qed

lemma haversine_dist_nonneg: "0 \<le> haversine_dist x1 x2"
proof -
  have "sqrt (haversine_rdist x1 x2) \<in> {0..1}"
    using haversine_rdist_bounds [of x1 x2] by simp
  then have "0 \<le> arcsin (sqrt (haversine_rdist x1 x2))" by (rule arcsin_nonneg)
  then show ?thesis by (simp add: haversine_dist_def)
qed

lemma sorted_map_hd_le:
  assumes "sorted (map f ys)" "y \<in> set ys"
  shows "f (hd ys) \<le> f y"
  using assms by (cases ys) auto

lemma hd_k_nearest_sort:
  "hd (k_nearest t x (Suc 0)) = hd (sort_key (\<lambda>i. haversine_dist x (data t ! i)) [0..<length (data t)])"
  by (simp add: k_nearest_def)

lemma hd_k_nearest_bound:
  assumes "data t \<noteq> []"
  shows "hd (k_nearest t x (Suc 0)) < length (data t)"
proof -
  let ?s = "sort_key (\<lambda>i. haversine_dist x (data t ! i)) [0..<length (data t)]"
  have "?s \<noteq> []" using assms by (metis length_sort length_upt length_0_conv diff_zero)
  then have "hd ?s \<in> set ?s" by (rule hd_in_set)
  then have "hd ?s < length (data t)" by simp
  then show ?thesis by (simp only: hd_k_nearest_sort)
qed

lemma hd_k_nearest_min:
  assumes "j < length (data t)"
  shows "haversine_dist x (data t ! hd (k_nearest t x (Suc 0))) \<le> haversine_dist x (data t ! j)"
proof -
  let ?f = "\<lambda>i. haversine_dist x (data t ! i)"
  let ?s = "sort_key ?f [0..<length (data t)]"
  have "sorted (map ?f ?s)" by (rule sorted_sort_key)
  moreover have "j \<in> set ?s" using assms by simp
  ultimately have "?f (hd ?s) \<le> ?f j" by (rule sorted_map_hd_le)
  then show ?thesis by (simp only: hd_k_nearest_sort)
qed

lemma hd_k_nearest_first:
  assumes "data t = c # cs" "\<forall>y\<in>set cs. haversine_dist x c \<le> haversine_dist x y"
  shows "hd (k_nearest t x (Suc 0)) = 0"
proof -
  let ?f = "\<lambda>i. haversine_dist x (data t ! i)"
  have "0 < length (data t)" using assms(1) by simp
  then have upt: "[0..<length (data t)] = 0 # [Suc 0..<length (data t)]"
    by (rule upt_conv_Cons)
  have "\<forall>i\<in>set (sort_key ?f [Suc 0..<length (data t)]). ?f 0 \<le> ?f i"
    using assms by (auto simp: nth_Cons')
  then have "insort_key ?f 0 (sort_key ?f [Suc 0..<length (data t)])
      = 0 # sort_key ?f [Suc 0..<length (data t)]"
    by (rule insort_is_Cons)
  then have "hd (sort_key ?f [0..<length (data t)]) = 0"
    by (simp add: upt)
  then show ?thesis by (simp only: hd_k_nearest_sort)
qed

lemma haversine_dist_self: "haversine_dist x x = 0"
  by (simp add: haversine_dist_def haversine_rdist_def)

lemma map2_upt_nth:
  "map2 f [0..<length xs] xs = map (\<lambda>i. f i (xs ! i)) [0..<length xs]"
  by (rule nth_equalityI) simp_all

lemma reset_index_map: "reset_index df = map (\<lambda>i. (df ! i)\<lparr>label := int i\<rparr>) [0..<length df]"
  unfolding reset_index_def by (rule map2_upt_nth)

lemma nth_reset_index: "i < length df \<Longrightarrow> reset_index df ! i = (df ! i)\<lparr>label := int i\<rparr>"
  by (simp add: reset_index_map)

lemma filter_eq_upt: "i < n \<Longrightarrow> filter (\<lambda>j. j = i) [0..<n] = [i]"
  by (induction n) (auto simp: less_Suc_eq)

lemma filter_label_reset_index:
  assumes "i < length df"
  shows "filter (\<lambda>r. label r = int i) (reset_index df) = [reset_index df ! i]"
proof -
  have "filter (\<lambda>r. label r = int i) (reset_index df)
      = map (\<lambda>j. (df ! j)\<lparr>label := int j\<rparr>) (filter (\<lambda>j. j = i) [0..<length df])"
    by (simp add: reset_index_map filter_map comp_def)
  then show ?thesis using assms by (simp add: filter_eq_upt nth_reset_index)
qed

lemma loc_reset_index:
  assumes "\<forall>i\<in>set is. i < length df"
  shows "loc (reset_index df) (map int is) = Inr (map (\<lambda>i. reset_index df ! i) is)"
  using assms by (induction "is") (simp_all add: filter_label_reset_index)

lemma geometry_reset_index:
  "map (\<lambda>r. to_radians (geometry r)) (reset_index df) = map (\<lambda>r. to_radians (geometry r)) df"
  by (rule nth_equalityI) (simp_all add: length_reset_index nth_reset_index)

lemma nearest_idx_bound: "right \<noteq> [] \<Longrightarrow> nearest_idx right g < length right"
  using hd_k_nearest_bound
    [of "\<lparr>data = map (\<lambda>r. to_radians (geometry r)) right, leaf_size = 15\<rparr>" "to_radians g"]
  by (simp add: nearest_idx_def)

lemma nearest_neighbor_Inr:
  assumes l: "left \<noteq> []" and r: "right \<noteq> []"
  shows "nearest_neighbor left right rd =
     Inr (map (\<lambda>j. match_row right rd j (geometry (left ! j))) [0..<length left])"
proof -
  let ?R = "map (\<lambda>r. to_radians (geometry r)) right"
  let ?L = "map (\<lambda>r. to_radians (geometry r)) left"
  let ?t = "\<lparr>data = ?R, leaf_size = 15\<rparr>"
  let ?closest = "map (\<lambda>x. hd (k_nearest ?t x (Suc 0))) ?L"
  let ?dist = "map (\<lambda>x. haversine_dist x (?R ! hd (k_nearest ?t x (Suc 0)))) ?L"
  have g: "get_nearest ?L ?R 1 = Inr (?closest, ?dist)"
    using l r by (intro get_nearest_Inr) (simp_all add: Suc_le_eq)
  have cl: "?closest = map (\<lambda>a. nearest_idx right (geometry a)) left"
    by (simp add: nearest_idx_def comp_def)
  have b: "\<forall>i\<in>set ?closest. i < length right"
    unfolding cl using nearest_idx_bound [OF r] by simp
  have lc: "loc (reset_index right) (map int ?closest)
      = Inr (map (\<lambda>i. reset_index right ! i) ?closest)"
    using b by (rule loc_reset_index)
  define cp where "cp = reset_index (map (\<lambda>i. reset_index right ! i) ?closest)"
  define dst where "dst = map (\<lambda>d. d * earth_radius) ?dist"
  have len: "length cp = length left" by (simp add: cp_def length_reset_index)
  have len_d: "length dst = length left" by (simp add: dst_def)
  have nth_cp: "\<And>j. j < length left \<Longrightarrow>
      cp ! j = (right ! nearest_idx right (geometry (left ! j)))\<lparr>label := int j\<rparr>"
    using nearest_idx_bound [OF r]
    by (simp add: cp_def nth_reset_index nearest_idx_def)
  have nth_d: "\<And>j. j < length left \<Longrightarrow>
      dst ! j = haversine_dist (to_radians (geometry (left ! j)))
                  (to_radians (geometry (right ! nearest_idx right (geometry (left ! j)))))
                * earth_radius"
    using nearest_idx_bound [OF r]
    by (simp add: dst_def nearest_idx_def)
  have nn: "nearest_neighbor left right rd = (if rd then set_distance cp dst else Inr cp)"
    by (simp only: nearest_neighbor_def copy_def Let_def geometry_reset_index g
        sum.case prod.case lc cp_def dst_def)
  show ?thesis
  proof (cases rd)
    case False
    have "cp = map (\<lambda>j. match_row right rd j (geometry (left ! j))) [0..<length left]"
      using False by (intro nth_equalityI) (simp_all add: len nth_cp match_row_def Let_def)
    with False nn show ?thesis by simp
  next
    case True
    have "map2 (\<lambda>r d. r\<lparr>distance := Some d\<rparr>) cp dst
        = map (\<lambda>j. match_row right rd j (geometry (left ! j))) [0..<length left]"
      using True by (intro nth_equalityI) (simp_all add: len len_d nth_cp nth_d match_row_def Let_def)
    then show ?thesis using True nn by (simp add: set_distance_def len len_d)
  qed
qed

lemma haversine_dist_to_radians:
  "haversine_dist (to_radians p) (to_radians q) = great_circle (prod.swap p) (prod.swap q)"
  by (simp add: haversine_dist_def haversine_rdist_def to_radians_def great_circle_def Let_def
      power2_eq_square diff_divide_distrib mult.assoc)

lemma great_circle_equator:
  "snd p = 0 \<Longrightarrow> snd q = 0 \<Longrightarrow> great_circle (prod.swap p) (prod.swap q) = great_circle p q"
  by (simp add: great_circle_def Let_def)

lemma great_circle_poles: "great_circle (0, 90) (180, 90) = 0"
  by (simp add: great_circle_def Let_def)

lemma great_circle_poles_swapped: "great_circle (90, 0) (90, 180) = pi"
proof -
  have "sin (- (pi / 2)) = - 1" by (simp only: sin_minus sin_pi_half)
  then have "(sin ((0 - pi) / 2))\<^sup>2 = 1" by simp
  then show ?thesis by (simp add: great_circle_def Let_def)
qed

lemma match_row_label: "match_row right rd j g = (match_row right rd 0 g)\<lparr>label := int j\<rparr>"
  by (simp add: match_row_def Let_def)

lemma distance_match_row:
  "distance (match_row right True j g)
     = Some (great_circle (prod.swap g) (prod.swap (geometry (match_row right True j g)))
             * earth_radius)"
  by (simp add: match_row_def Let_def haversine_dist_to_radians)

lemma nearest_idx_single: "nearest_idx [c] g = 0"
  unfolding nearest_idx_def
  by (rule hd_k_nearest_first [where c = "to_radians (geometry c)" and cs = "[]"]) simp_all

lemma match_row_relabel: "(match_row right rd i g)\<lparr>label := l\<rparr> = (match_row right rd 0 g)\<lparr>label := l\<rparr>"
  by (simp add: match_row_def Let_def)

lemma match_row_zero: "(match_row right rd i g)\<lparr>label := 0\<rparr> = match_row right rd 0 g"
  by (simp add: match_row_def Let_def)

lemma get_nearest_same_point:
  "get_nearest [x] [x] 1 = Inr ([0], [0])"
proof -
  let ?t = "\<lparr>data = [x], leaf_size = 15\<rparr>"
  have "hd (k_nearest ?t x (Suc 0)) = 0"
    by (rule hd_k_nearest_first [where c = x and cs = "[]"]) simp_all
  moreover have "get_nearest [x] [x] 1 =
     Inr (map (\<lambda>x. hd (k_nearest ?t x (Suc 0))) [x],
          map (\<lambda>y. haversine_dist y ([x] ! hd (k_nearest ?t y (Suc 0)))) [x])"
    by (rule get_nearest_Inr) simp_all
  ultimately show ?thesis by (simp add: haversine_dist_self)
qed

lemma sqrt_sixteenth: "sqrt (1 / 16) = 1 / 4"
  by (rule real_sqrt_unique) (simp_all add: power2_eq_square)

lemma sqrt_quarter: "sqrt (1 / 4) = 1 / 2"
  by (rule real_sqrt_unique) (simp_all add: power2_eq_square)

lemma great_circle_60_60_0_60: "great_circle (60, 60) (0, 60) = 2 * arcsin (1 / 4)"
  by (simp add: great_circle_def Let_def cos_60 sin_30 power2_eq_square sqrt_sixteenth)

lemma great_circle_60_60_60_0: "great_circle (60, 60) (60, 0) = 2 * arcsin (1 / 2)"
  by (simp add: great_circle_def Let_def cos_60 sin_30 power2_eq_square sqrt_quarter)

lemma great_circle_failing_input: "great_circle (60, 60) (0, 60) < great_circle (60, 60) (60, 0)"
proof -
  have "arcsin (1 / 4) < arcsin (1 / 2 :: real)"
    by (rule arcsin_less_arcsin) simp_all
  then show ?thesis
    by (simp only: great_circle_60_60_0_60 great_circle_60_60_60_0 mult_less_cancel_left_pos zero_less_numeral)
qed

lemma hd_k_nearest_second:
  assumes "data t = [c0, c1]" "haversine_dist x c1 < haversine_dist x c0"
  shows "hd (k_nearest t x (Suc 0)) = 1"
proof -
  have "[0..<length (data t)] = [0, Suc 0]"
    using assms(1) by (simp add: upt_rec)
  then show ?thesis
    using assms by (simp add: hd_k_nearest_sort)
qed

lemma nearest_idx_failing_input:
  "nearest_idx [\<lparr>label = 0, geometry = (0, 60), attrs = a, distance = None\<rparr>,
                \<lparr>label = 1, geometry = (60, 0), attrs = b, distance = None\<rparr>] (60, 60) = 1"
proof -
  have "haversine_dist (to_radians (60, 60)) (to_radians (60, 0))
      < haversine_dist (to_radians (60, 60)) (to_radians (0, 60))"
    using great_circle_failing_input by (simp add: haversine_dist_to_radians)
  then show ?thesis
    unfolding nearest_idx_def
    by (intro hd_k_nearest_second [where ?c0.0 = "to_radians (0, 60)" and ?c1.0 = "to_radians (60, 0)"])
      simp_all
qed

subsection \<open>The store\<close>

lemma alloc_frames:
  "alloc df s = (b, s') \<Longrightarrow>
     b = next_addr s \<and> next_addr s' = Suc (next_addr s) \<and> frames s' b = df \<and>
     (\<forall>a<next_addr s. frames s' a = frames s a)"
  by (auto simp: alloc_def)

text \<open>The store-level function computes the pure one and leaves old objects alone.\<close>

lemma nearest_neighbor_heap_sound:
  assumes "l < next_addr s" "r < next_addr s"
    and "nearest_neighbor_heap l r rd s = (res, s')"
  shows "(\<forall>a<next_addr s. frames s' a = frames s a) \<and> next_addr s \<le> next_addr s' \<and>
         (case res of
            Inl e \<Rightarrow> nearest_neighbor (frames s l) (frames s r) rd = Inl e
          | Inr a \<Rightarrow> next_addr s \<le> a \<and> a < next_addr s' \<and>
                     nearest_neighbor (frames s l) (frames s r) rd = Inr (frames s' a))"
  using assms
  unfolding nearest_neighbor_heap_def nearest_neighbor_def heap_copy_def heap_reset_index_def
    heap_loc_def heap_set_distance_def alloc_def Let_def
  by (auto split: sum.splits prod.splits if_splits)

section \<open>The claims\<close>

text \<open>
  C1, at a failing input.  The query Point (longitude 60, latitude 60) and the candidates
  A = (0, 60) and B = (60, 0): in great-circle distance A is strictly nearer than B, so a
  brute-force haversine scan selects A (index 0) whatever its tie-breaking.
  \<open>nearest_neighbor\<close> returns the row of B (index 1), because the metric receives each
  Point with longitude and latitude exchanged.
\<close>

theorem swapped_coordinates_pick_farther_candidate:
  "nearest_neighbor
     [\<lparr>label = 0, geometry = (60, 60), attrs = ''building'', distance = None\<rparr>]
     [\<lparr>label = 0, geometry = (0, 60), attrs = ''A'', distance = None\<rparr>,
      \<lparr>label = 1, geometry = (60, 0), attrs = ''B'', distance = None\<rparr>] False
     = Inr [\<lparr>label = 0, geometry = (60, 0), attrs = ''B'', distance = None\<rparr>] \<and>
   great_circle (60, 60) (0, 60) < great_circle (60, 60) (60, 0)"
proof -
  let ?l = "[\<lparr>label = 0, geometry = (60::real, 60::real), attrs = ''building'', distance = None\<rparr>]"
  let ?r = "[\<lparr>label = 0, geometry = (0::real, 60::real), attrs = ''A'', distance = None\<rparr>,
             \<lparr>label = 1, geometry = (60, 0), attrs = ''B'', distance = None\<rparr>]"
  have "nearest_neighbor ?l ?r False
      = Inr (map (\<lambda>j. match_row ?r False j (geometry (?l ! j))) [0..<length ?l])"
    by (rule nearest_neighbor_Inr) simp_all
  also have "\<dots> = Inr [\<lparr>label = 0, geometry = (60, 0), attrs = ''B'', distance = None\<rparr>]"
    by (simp add: match_row_def nearest_idx_failing_input)
  finally show ?thesis using great_circle_failing_input by simp
qed

text \<open>
  C2 (as amended).  For every non-empty query frame and non-empty candidate frame,
  \<open>nearest_neighbor\<close> returns a frame with exactly as many rows as the query frame; row i
  of the result is the match of query row i alone (up to the label, which is the position in
  the result); and for every non-empty selection of positions of the query frame, in any
  order and so for every permutation, the result for the selected query rows is the selection
  of the result rows, relabelled by position.
\<close>

theorem nearest_neighbor_order:
  assumes "left_gdf \<noteq> []" and "right_gdf \<noteq> []"
  shows "\<exists>res. nearest_neighbor left_gdf right_gdf return_dist = Inr res \<and>
           length res = length left_gdf \<and>
           (\<forall>i<length left_gdf.
              nearest_neighbor [left_gdf ! i] right_gdf return_dist = Inr [(res ! i)\<lparr>label := 0\<rparr>]) \<and>
           (\<forall>is. is \<noteq> [] \<and> (\<forall>i\<in>set is. i < length left_gdf) \<longrightarrow>
              nearest_neighbor (map (\<lambda>i. left_gdf ! i) is) right_gdf return_dist
                = Inr (map2 (\<lambda>j i. (res ! i)\<lparr>label := int j\<rparr>) [0..<length is] is))"
proof -
  let ?m = "\<lambda>j g. match_row right_gdf return_dist j g"
  let ?res = "map (\<lambda>j. ?m j (geometry (left_gdf ! j))) [0..<length left_gdf]"
  have nn: "nearest_neighbor left_gdf right_gdf return_dist = Inr ?res"
    using assms by (rule nearest_neighbor_Inr)
  have one: "nearest_neighbor [left_gdf ! i] right_gdf return_dist = Inr [(?res ! i)\<lparr>label := 0\<rparr>]"
    if "i < length left_gdf" for i
  proof -
    have "nearest_neighbor [left_gdf ! i] right_gdf return_dist
        = Inr (map (\<lambda>j. ?m j (geometry ([left_gdf ! i] ! j))) [0..<length [left_gdf ! i]])"
      using assms(2) by (intro nearest_neighbor_Inr) simp_all
    also have "\<dots> = Inr [?m 0 (geometry (left_gdf ! i))]" by simp
    finally show ?thesis using that by (simp add: match_row_zero)
  qed
  have sel: "nearest_neighbor (map (\<lambda>i. left_gdf ! i) is) right_gdf return_dist
      = Inr (map2 (\<lambda>j i. (?res ! i)\<lparr>label := int j\<rparr>) [0..<length is] is)"
    if ne: "is \<noteq> []" and b: "\<forall>i\<in>set is. i < length left_gdf" for "is"
  proof -
    have "nearest_neighbor (map (\<lambda>i. left_gdf ! i) is) right_gdf return_dist
        = Inr (map (\<lambda>j. ?m j (geometry (map (\<lambda>i. left_gdf ! i) is ! j)))
                 [0..<length (map (\<lambda>i. left_gdf ! i) is)])"
      using ne assms(2) by (intro nearest_neighbor_Inr) simp_all
    also have "map (\<lambda>j. ?m j (geometry (map (\<lambda>i. left_gdf ! i) is ! j)))
                 [0..<length (map (\<lambda>i. left_gdf ! i) is)]
        = map2 (\<lambda>j i. (?res ! i)\<lparr>label := int j\<rparr>) [0..<length is] is"
    proof (rule nth_equalityI)
      show "length (map (\<lambda>j. ?m j (geometry (map (\<lambda>i. left_gdf ! i) is ! j)))
                 [0..<length (map (\<lambda>i. left_gdf ! i) is)])
          = length (map2 (\<lambda>j i. (?res ! i)\<lparr>label := int j\<rparr>) [0..<length is] is)"
        by simp
    next
      fix j
      assume "j < length (map (\<lambda>j. ?m j (geometry (map (\<lambda>i. left_gdf ! i) is ! j)))
                 [0..<length (map (\<lambda>i. left_gdf ! i) is)])"
      then have j: "j < length is" by simp
      then have "is ! j < length left_gdf" using b by simp
      with j show "map (\<lambda>j. ?m j (geometry (map (\<lambda>i. left_gdf ! i) is ! j)))
                 [0..<length (map (\<lambda>i. left_gdf ! i) is)] ! j
          = map2 (\<lambda>j i. (?res ! i)\<lparr>label := int j\<rparr>) [0..<length is] is ! j"
        by (simp add: match_row_relabel [where i = "is ! j"] match_row_label [where j = j])
    qed
    finally show ?thesis .
  qed
  show ?thesis
    unfolding nn using one sel by (intro exI [of _ ?res]) simp
qed

theorem nearest_neighbor_order_witness:
  "[\<lparr>label = 5, geometry = (24, 60), attrs = ''a'', distance = None\<rparr>,
    \<lparr>label = 9, geometry = (25, 61), attrs = ''b'', distance = None\<rparr>] \<noteq> [] \<and>
   [\<lparr>label = 3, geometry = (24, 61), attrs = ''stop'', distance = None\<rparr>] \<noteq> [] \<and>
   (\<exists>res. nearest_neighbor
             [\<lparr>label = 5, geometry = (24, 60), attrs = ''a'', distance = None\<rparr>,
              \<lparr>label = 9, geometry = (25, 61), attrs = ''b'', distance = None\<rparr>]
             [\<lparr>label = 3, geometry = (24, 61), attrs = ''stop'', distance = None\<rparr>] False
           = Inr res \<and>
         length res = 2 \<and>
         nearest_neighbor
             [\<lparr>label = 9, geometry = (25, 61), attrs = ''b'', distance = None\<rparr>]
             [\<lparr>label = 3, geometry = (24, 61), attrs = ''stop'', distance = None\<rparr>] False
           = Inr [(res ! 1)\<lparr>label := 0\<rparr>] \<and>
         nearest_neighbor
             [\<lparr>label = 9, geometry = (25, 61), attrs = ''b'', distance = None\<rparr>,
              \<lparr>label = 5, geometry = (24, 60), attrs = ''a'', distance = None\<rparr>]
             [\<lparr>label = 3, geometry = (24, 61), attrs = ''stop'', distance = None\<rparr>] False
           = Inr [(res ! 1)\<lparr>label := 0\<rparr>, (res ! 0)\<lparr>label := 1\<rparr>])"
proof -
  let ?a = "\<lparr>label = 5, geometry = (24::real, 60::real), attrs = ''a'', distance = None\<rparr>"
  let ?b = "\<lparr>label = 9, geometry = (25::real, 61::real), attrs = ''b'', distance = None\<rparr>"
  let ?s = "\<lparr>label = 3, geometry = (24::real, 61::real), attrs = ''stop'', distance = None\<rparr>"
  have h1: "[?a, ?b] \<noteq> []" by simp
  have h2: "[?s] \<noteq> []" by simp
  from nearest_neighbor_order [OF h1 h2, of False]
  obtain res where r: "nearest_neighbor [?a, ?b] [?s] False = Inr res"
    and l: "length res = length [?a, ?b]"
    and one: "\<forall>i<length [?a, ?b].
        nearest_neighbor [([?a, ?b]) ! i] [?s] False = Inr [(res ! i)\<lparr>label := 0\<rparr>]"
    and sel: "\<forall>is. is \<noteq> [] \<and> (\<forall>i\<in>set is. i < length [?a, ?b]) \<longrightarrow>
        nearest_neighbor (map (\<lambda>i. [?a, ?b] ! i) is) [?s] False
          = Inr (map2 (\<lambda>j i. (res ! i)\<lparr>label := int j\<rparr>) [0..<length is] is)"
    by blast
  from l have l2: "length res = 2" by simp
  from one have o1: "nearest_neighbor [?b] [?s] False = Inr [(res ! 1)\<lparr>label := 0\<rparr>]"
    by (drule_tac x = 1 in spec) simp
  from sel have "nearest_neighbor (map (\<lambda>i. [?a, ?b] ! i) [1, 0]) [?s] False
          = Inr (map2 (\<lambda>j i. (res ! i)\<lparr>label := int j\<rparr>) [0..<length [1, 0 :: nat]] [1, 0])"
    by (drule_tac x = "[1, 0]" in spec) simp
  then have s1: "nearest_neighbor [?b, ?a] [?s] False
      = Inr [(res ! 1)\<lparr>label := 0\<rparr>, (res ! 0)\<lparr>label := 1\<rparr>]"
    by (simp add: upt_rec)
  from h1 h2 r l2 o1 s1 show ?thesis by blast
qed

text \<open>
  C2 as stated fails for the empty query frame: no frame of zero rows is returned, the
  call raises.
\<close>

theorem empty_query_has_no_result:
  "nearest_neighbor ([] :: unit gdf)
     [\<lparr>label = 0, geometry = (24, 61), attrs = ''stop'', distance = None\<rparr>] True
     = Inl (Raise ''ValueError'')"
  by (simp add: nearest_neighbor_def get_nearest_no_sources)

text \<open>
  C3 (as amended).  For every query set, \<open>nearest_neighbor\<close> with an empty candidate
  frame fails: the constructor of the index raises the library's \<open>ValueError\<close>, which
  reaches the caller, and no frame is returned.  The notebook defines no exception class
  of its own and makes no check before it builds the index.
\<close>

theorem nearest_neighbor_empty_candidates:
  "BallTree [] 15 = Inl (Raise ''ValueError'') \<and>
   nearest_neighbor left_gdf [] return_dist = Inl (Raise ''ValueError'')"
  by (simp add: nearest_neighbor_def copy_def reset_index_def get_nearest_no_candidates
      BallTree_def)

text \<open>
  C3 as stated fails: with one query point and no candidate the exception is not an
  \<open>EmptyCandidateSetError\<close>.
\<close>

theorem empty_candidates_not_typed_error:
  "nearest_neighbor [\<lparr>label = 0, geometry = (0, 0), attrs = (), distance = None\<rparr>]
      ([] :: unit gdf) False = Inl (Raise ''ValueError'') \<and>
   nearest_neighbor [\<lparr>label = 0, geometry = (0, 0), attrs = (), distance = None\<rparr>]
      ([] :: unit gdf) False \<noteq> Inl (Raise ''EmptyCandidateSetError'')"
  by (simp add: nearest_neighbor_def copy_def reset_index_def get_nearest_no_candidates)

text \<open>
  C4 (as amended).  For every non-empty array of query points and every k with
  1 \<le> k \<le> |candidates|, \<open>get_nearest\<close> with \<open>k_neighbors = k\<close> returns, per query
  point, exactly one candidate index and one distance: the first of the k neighbours that
  the index found.  That index is within bounds, the distance is the metric's distance to
  that candidate, and no candidate is nearer under the metric.  The other k - 1
  neighbours are dropped by \<open>indices[0]\<close> after the transposition.
\<close>

theorem get_nearest_k_neighbors:
  assumes "src_points \<noteq> []" and "1 \<le> k" and "k \<le> int (length candidates)"
  shows "\<exists>closest closest_dist.
     get_nearest src_points candidates k = Inr (closest, closest_dist) \<and>
     closest = map (\<lambda>x. hd (k_nearest \<lparr>data = candidates, leaf_size = 15\<rparr> x (nat k))) src_points \<and>
     length closest = length src_points \<and>
     length closest_dist = length src_points \<and>
     (\<forall>i<length src_points.
        closest ! i < length candidates \<and>
        closest_dist ! i = haversine_dist (src_points ! i) (candidates ! (closest ! i)) \<and>
        (\<forall>j<length candidates.
           closest_dist ! i \<le> haversine_dist (src_points ! i) (candidates ! j)))"
proof -
  let ?t = "\<lparr>data = candidates, leaf_size = 15\<rparr>"
  have k: "0 < k" using assms(2) by simp
  have c: "candidates \<noteq> []" using assms(2,3) by auto
  have g: "get_nearest src_points candidates k =
     Inr (map (\<lambda>x. hd (k_nearest ?t x (Suc 0))) src_points,
          map (\<lambda>x. haversine_dist x (candidates ! hd (k_nearest ?t x (Suc 0)))) src_points)"
    using assms(1) c k assms(3) by (rule get_nearest_Inr)
  have "0 < nat k" using k by simp
  then have hk: "\<And>x. hd (k_nearest ?t x (nat k)) = hd (k_nearest ?t x (Suc 0))"
    by (rule hd_k_nearest)
  have b: "\<And>x. hd (k_nearest ?t x (Suc 0)) < length candidates"
    using hd_k_nearest_bound [of ?t] c by simp
  have m: "\<And>x j. j < length candidates \<Longrightarrow>
      haversine_dist x (candidates ! hd (k_nearest ?t x (Suc 0))) \<le> haversine_dist x (candidates ! j)"
    using hd_k_nearest_min [of _ ?t] by simp
  show ?thesis
    unfolding g by (simp add: hk b m)
qed

theorem get_nearest_k_neighbors_witness:
  "[(0::real, 0::real)] \<noteq> [] \<and> (1::int) \<le> 3 \<and>
   3 \<le> int (length [(0::real, 0::real), (0, 1), (0, 2), (0, 3), (0, 4)]) \<and>
   (\<exists>closest closest_dist.
      get_nearest [(0, 0)] [(0, 0), (0, 1), (0, 2), (0, 3), (0, 4)] 3 = Inr (closest, closest_dist) \<and>
      length closest = 1 \<and> length closest_dist = 1)"
proof -
  have h1: "[(0::real, 0::real)] \<noteq> []" by simp
  have h2: "(1::int) \<le> 3" by simp
  have h3: "3 \<le> int (length [(0::real, 0::real), (0, 1), (0, 2), (0, 3), (0, 4)])" by simp
  from get_nearest_k_neighbors [OF h1 h2 h3]
  obtain closest closest_dist where
    "get_nearest [(0, 0)] [(0, 0), (0, 1), (0, 2), (0, 3), (0, 4)] 3 = Inr (closest, closest_dist)"
    "length closest = length [(0::real, 0::real)]"
    "length closest_dist = length [(0::real, 0::real)]"
    by blast
  then have "\<exists>closest closest_dist.
      get_nearest [(0, 0)] [(0, 0), (0, 1), (0, 2), (0, 3), (0, 4)] 3 = Inr (closest, closest_dist) \<and>
      length closest = 1 \<and> length closest_dist = 1"
    by simp
  with h1 h2 h3 show ?thesis by blast
qed

text \<open>
  C4 as stated fails: three neighbours asked among five candidates give one index for
  the query point, not three.
\<close>

theorem get_nearest_three_of_five:
  "get_nearest [(0, 0)] [(0, 0), (0, 1), (0, 2), (0, 3), (0, 4)] 3 = Inr ([0], [0])"
proof -
  let ?c = "[(0::real, 0::real), (0, 1), (0, 2), (0, 3), (0, 4)]"
  let ?t = "\<lparr>data = ?c, leaf_size = 15\<rparr>"
  have "hd (k_nearest ?t (0, 0) (Suc 0)) = 0"
    by (rule hd_k_nearest_first [where c = "(0, 0)" and cs = "[(0, 1), (0, 2), (0, 3), (0, 4)]"])
      (simp_all add: haversine_dist_self haversine_dist_nonneg)
  moreover have "get_nearest [(0, 0)] ?c 3 =
     Inr (map (\<lambda>x. hd (k_nearest ?t x (Suc 0))) [(0, 0)],
          map (\<lambda>x. haversine_dist x (?c ! hd (k_nearest ?t x (Suc 0)))) [(0, 0)])"
    by (rule get_nearest_Inr) simp_all
  ultimately show ?thesis by (simp add: haversine_dist_self)
qed

text \<open>
  C5.  The conversion multiplies each component of each Point by \<open>pi / 180\<close>, point by
  point and in the order of the frame; and when the distance is asked for, the
  \<open>distance\<close> of row i of the result is the angular distance that \<open>get_nearest\<close>
  returned for query point i, times the Earth radius of 6371000 metres.
\<close>

theorem radians_and_meters:
  assumes "left_gdf \<noteq> []" and "right_gdf \<noteq> []"
  shows "(\<forall>pts. length (map to_radians pts) = length pts \<and>
            (\<forall>i<length pts. map to_radians pts ! i
                 = (fst (pts ! i) * pi / 180, snd (pts ! i) * pi / 180))) \<and>
         (\<exists>closest dist_rad res.
            get_nearest (map (\<lambda>r. to_radians (geometry r)) left_gdf)
                        (map (\<lambda>r. to_radians (geometry r)) right_gdf) 1
              = Inr (closest, dist_rad) \<and>
            nearest_neighbor left_gdf right_gdf True = Inr res \<and>
            length res = length left_gdf \<and>
            length dist_rad = length left_gdf \<and>
            (\<forall>i<length left_gdf. distance (res ! i) = Some (dist_rad ! i * 6371000)))"
proof -
  let ?R = "map (\<lambda>r. to_radians (geometry r)) right_gdf"
  let ?L = "map (\<lambda>r. to_radians (geometry r)) left_gdf"
  let ?t = "\<lparr>data = ?R, leaf_size = 15\<rparr>"
  let ?closest = "map (\<lambda>x. hd (k_nearest ?t x (Suc 0))) ?L"
  let ?dist = "map (\<lambda>x. haversine_dist x (?R ! hd (k_nearest ?t x (Suc 0)))) ?L"
  let ?res = "map (\<lambda>j. match_row right_gdf True j (geometry (left_gdf ! j))) [0..<length left_gdf]"
  have 1: "\<forall>pts. length (map to_radians pts) = length pts \<and>
            (\<forall>i<length pts. map to_radians pts ! i
                 = (fst (pts ! i) * pi / 180, snd (pts ! i) * pi / 180))"
    by (simp add: to_radians_def)
  have g: "get_nearest ?L ?R 1 = Inr (?closest, ?dist)"
    using assms by (intro get_nearest_Inr) (simp_all add: Suc_le_eq)
  have nn: "nearest_neighbor left_gdf right_gdf True = Inr ?res"
    using assms by (rule nearest_neighbor_Inr)
  have d: "distance (?res ! i) = Some (?dist ! i * 6371000)" if "i < length left_gdf" for i
    using that nearest_idx_bound [OF assms(2), of "geometry (left_gdf ! i)"]
    by (simp add: match_row_def Let_def earth_radius_def nearest_idx_def)
  have 2: "\<exists>closest dist_rad res.
            get_nearest ?L ?R 1 = Inr (closest, dist_rad) \<and>
            nearest_neighbor left_gdf right_gdf True = Inr res \<and>
            length res = length left_gdf \<and>
            length dist_rad = length left_gdf \<and>
            (\<forall>i<length left_gdf. distance (res ! i) = Some (dist_rad ! i * 6371000))"
    using g nn d by (intro exI [of _ ?closest] exI [of _ ?dist] exI [of _ ?res]) simp
  from 1 2 show ?thesis by (rule conjI)
qed

theorem radians_and_meters_witness:
  "[\<lparr>label = 4, geometry = (24, 60), attrs = ''building'', distance = None\<rparr>] \<noteq> [] \<and>
   [\<lparr>label = 8, geometry = (24, 60), attrs = ''stop'', distance = None\<rparr>] \<noteq> [] \<and>
   map to_radians [(180, 90)] ! 0 = (pi, pi / 2) \<and>
   (\<exists>res. nearest_neighbor
             [\<lparr>label = 4, geometry = (24, 60), attrs = ''building'', distance = None\<rparr>]
             [\<lparr>label = 8, geometry = (24, 60), attrs = ''stop'', distance = None\<rparr>] True
           = Inr res \<and>
          length res = 1 \<and> distance (res ! 0) = Some 0)"
proof -
  let ?b = "\<lparr>label = 4, geometry = (24::real, 60::real), attrs = ''building'', distance = None\<rparr>"
  let ?s = "\<lparr>label = 8, geometry = (24::real, 60::real), attrs = ''stop'', distance = None\<rparr>"
  have h1: "[?b] \<noteq> []" by simp
  have h2: "[?s] \<noteq> []" by simp
  note t = radians_and_meters [OF h1 h2]
  have "0 < length [(180::real, 90::real)]" by simp
  from t [THEN conjunct1, rule_format, THEN conjunct2, rule_format, OF this]
  have c: "map to_radians [(180, 90)] ! 0 = (pi, pi / 2)" by simp
  from t [THEN conjunct2]
  obtain closest dist_rad res where
    g: "get_nearest (map (\<lambda>r. to_radians (geometry r)) [?b])
                    (map (\<lambda>r. to_radians (geometry r)) [?s]) 1 = Inr (closest, dist_rad)"
    and r: "nearest_neighbor [?b] [?s] True = Inr res"
    and l: "length res = length [?b]"
    and d: "\<forall>i<length [?b]. distance (res ! i) = Some (dist_rad ! i * 6371000)"
    by blast
  have "get_nearest (map (\<lambda>r. to_radians (geometry r)) [?b])
                    (map (\<lambda>r. to_radians (geometry r)) [?s]) 1
      = get_nearest [to_radians (24, 60)] [to_radians (24, 60)] 1"
    by simp
  with g have "dist_rad = [0]" by (simp only: get_nearest_same_point sum.inject prod.inject)
  with d have "distance (res ! 0) = Some 0" by simp
  with h1 h2 c r l show ?thesis by simp
qed

text \<open>
  C6 (as amended).  For every non-empty candidate frame, \<open>nearest_neighbor\<close> with an
  empty query frame fails with \<open>ValueError\<close>: the index is built, and its query rejects
  the array without samples that the empty frame converts to.
\<close>

theorem nearest_neighbor_empty_query:
  "right_gdf \<noteq> [] \<Longrightarrow>
   (\<exists>tree. BallTree (map (\<lambda>r. to_radians (geometry r)) (reset_index (copy right_gdf))) 15
              = Inr tree \<and>
           tree_query tree [] 1 = Inl (Raise ''ValueError'')) \<and>
   nearest_neighbor [] right_gdf return_dist = Inl (Raise ''ValueError'')"
  by (simp add: nearest_neighbor_def get_nearest_no_sources BallTree_def tree_query_def
      copy_def reset_index_def)

theorem nearest_neighbor_empty_query_witness:
  "[\<lparr>label = 7, geometry = (24.9, 60.2), attrs = ''stop'', distance = None\<rparr>] \<noteq> [] \<and>
   nearest_neighbor ([] :: unit gdf)
     [\<lparr>label = 7, geometry = (24.9, 60.2), attrs = ''stop'', distance = None\<rparr>] True
     = Inl (Raise ''ValueError'')"
proof -
  have h: "[\<lparr>label = 7, geometry = (24.9, 60.2), attrs = ''stop'', distance = None\<rparr>] \<noteq> []"
    by simp
  have t: "nearest_neighbor ([] :: unit gdf)
     [\<lparr>label = 7, geometry = (24.9, 60.2), attrs = ''stop'', distance = None\<rparr>] True
     = Inl (Raise ''ValueError'')"
    by (rule nearest_neighbor_empty_query [OF h, THEN conjunct2])
  show ?thesis by (rule conjI [OF h t])
qed

text \<open>
  C6 as stated fails: with an empty query frame and one candidate the call does not
  return the empty frame.
\<close>

theorem empty_query_raises:
  "nearest_neighbor ([] :: unit gdf)
     [\<lparr>label = 0, geometry = (0, 0), attrs = (), distance = None\<rparr>] False
     = Inl (Raise ''ValueError'') \<and>
   nearest_neighbor ([] :: unit gdf)
     [\<lparr>label = 0, geometry = (0, 0), attrs = (), distance = None\<rparr>] False \<noteq> Inr []"
  by (simp add: nearest_neighbor_def get_nearest_no_sources)

text \<open>
  C7 (as amended).  For all arrays of query points and of candidates and every k outside
  the range [1, |candidates|], \<open>get_nearest\<close> fails with an exception and returns
  nothing.  The exception is never an \<open>InvalidKError\<close>, a class the notebook does not
  define: it is the library's \<open>ValueError\<close> when k exceeds the number of candidates and
  when k is negative, and for k = 0 (both arrays non-empty) it is the \<open>IndexError\<close> of
  \<open>indices[0]\<close>, because the query then returns arrays with rows of length 0 and their
  transposes have no row.
\<close>

theorem get_nearest_invalid_k:
  assumes "k < 1 \<or> int (length candidates) < k"
  shows "get_nearest src_points candidates k =
           Inl (Raise (if k = 0 \<and> src_points \<noteq> [] \<and> candidates \<noteq> []
                       then ''IndexError'' else ''ValueError''))"
proof (cases "src_points = [] \<or> candidates = []")
  case True
  then show ?thesis
    by (auto simp: get_nearest_no_sources get_nearest_no_candidates)
next
  case False
  then have ne: "src_points \<noteq> []" "candidates \<noteq> []" by simp_all
  show ?thesis
  proof (cases "k = 0")
    case True
    then show ?thesis using ne by (simp add: get_nearest_zero)
  next
    case False
    with assms have "k < 0 \<or> int (length candidates) < k" by auto
    then have "get_nearest src_points candidates k = Inl (Raise ''ValueError'')"
      by (auto simp: get_nearest_k_too_large get_nearest_k_negative)
    with False show ?thesis by simp
  qed
qed

theorem get_nearest_invalid_k_witness:
  "((2::int) < 1 \<or> int (length [(0::real, 0::real)]) < 2) \<and>
   get_nearest [(0, 0)] [(0, 0)] 2 = Inl (Raise ''ValueError'') \<and>
   ((0::int) < 1 \<or> int (length [(0::real, 0::real)]) < 0) \<and>
   get_nearest [(0, 0)] [(0, 0)] 0 = Inl (Raise ''IndexError'') \<and>
   ((- 1::int) < 1 \<or> int (length [(0::real, 0::real)]) < - 1) \<and>
   get_nearest [(0, 0)] [(0, 0)] (- 1) = Inl (Raise ''ValueError'')"
proof -
  have h2: "(2::int) < 1 \<or> int (length [(0::real, 0::real)]) < 2" by simp
  have h0: "(0::int) < 1 \<or> int (length [(0::real, 0::real)]) < 0" by simp
  have hm: "(- 1::int) < 1 \<or> int (length [(0::real, 0::real)]) < - 1" by simp
  have t2: "get_nearest [(0, 0)] [(0, 0)] 2 = Inl (Raise ''ValueError'')"
    using get_nearest_invalid_k [OF h2, of "[(0, 0)]"] by simp
  have t0: "get_nearest [(0, 0)] [(0, 0)] 0 = Inl (Raise ''IndexError'')"
    using get_nearest_invalid_k [OF h0, of "[(0, 0)]"] by simp
  have tm: "get_nearest [(0, 0)] [(0, 0)] (- 1) = Inl (Raise ''ValueError'')"
    using get_nearest_invalid_k [OF hm, of "[(0, 0)]"] by simp
  from h2 t2 h0 t0 hm tm show ?thesis by (intro conjI)
qed

text \<open>
  C7 as stated fails: two neighbours asked of one candidate do not give an
  \<open>InvalidKError\<close>.
\<close>

theorem invalid_k_not_typed_error:
  "get_nearest [(0, 0)] [(0, 0)] 2 = Inl (Raise ''ValueError'') \<and>
   get_nearest [(0, 0)] [(0, 0)] 2 \<noteq> Inl (Raise ''InvalidKError'')"
  by (simp add: get_nearest_k_too_large)

text \<open>
  C9.  A call of \<open>nearest_neighbor\<close> on two frames that exist in the store leaves both
  of them, and every other frame that existed before the call, as they were; what it
  adds are new objects (the copy of the candidates, the frames of the intermediate steps,
  the result), and the frame it returns is none of its two arguments.  The argument
  frames may be one and the same object.
\<close>

theorem nearest_neighbor_keeps_inputs:
  assumes "left_gdf < next_addr s" and "right_gdf < next_addr s"
  shows "frames (snd (nearest_neighbor_heap left_gdf right_gdf return_dist s)) left_gdf
           = frames s left_gdf \<and>
         frames (snd (nearest_neighbor_heap left_gdf right_gdf return_dist s)) right_gdf
           = frames s right_gdf \<and>
         (\<forall>a<next_addr s.
            frames (snd (nearest_neighbor_heap left_gdf right_gdf return_dist s)) a = frames s a) \<and>
         (\<forall>a. fst (nearest_neighbor_heap left_gdf right_gdf return_dist s) = Inr a \<longrightarrow>
              a \<noteq> left_gdf \<and> a \<noteq> right_gdf)"
proof -
  obtain res s' where c: "nearest_neighbor_heap left_gdf right_gdf return_dist s = (res, s')"
    by (cases "nearest_neighbor_heap left_gdf right_gdf return_dist s")
  from nearest_neighbor_heap_sound [OF assms c]
  have f: "\<forall>a<next_addr s. frames s' a = frames s a"
    and r: "case res of Inl e \<Rightarrow> True | Inr a \<Rightarrow> next_addr s \<le> a"
    by (auto split: sum.splits)
  from f assms have "frames s' left_gdf = frames s left_gdf" "frames s' right_gdf = frames s right_gdf"
    by simp_all
  moreover from r assms have "\<forall>a. res = Inr a \<longrightarrow> a \<noteq> left_gdf \<and> a \<noteq> right_gdf"
    by auto
  ultimately show ?thesis using f by (simp add: c)
qed

theorem nearest_neighbor_keeps_inputs_witness:
  "(0::nat) < next_addr \<lparr>frames = (\<lambda>_. [])
        (0 := [\<lparr>label = 0, geometry = (24, 60), attrs = ''building'', distance = None\<rparr>],
         1 := [\<lparr>label = 0, geometry = (24, 61), attrs = ''stop'', distance = None\<rparr>]),
       next_addr = 2\<rparr> \<and>
   (1::nat) < next_addr \<lparr>frames = (\<lambda>_. [])
        (0 := [\<lparr>label = 0, geometry = (24, 60), attrs = ''building'', distance = None\<rparr>],
         1 := [\<lparr>label = 0, geometry = (24, 61), attrs = ''stop'', distance = None\<rparr>]),
       next_addr = 2\<rparr> \<and>
   frames (snd (nearest_neighbor_heap 0 1 True \<lparr>frames = (\<lambda>_. [])
        (0 := [\<lparr>label = 0, geometry = (24, 60), attrs = ''building'', distance = None\<rparr>],
         1 := [\<lparr>label = 0, geometry = (24, 61), attrs = ''stop'', distance = None\<rparr>]),
       next_addr = 2\<rparr>)) 0
     = [\<lparr>label = 0, geometry = (24, 60), attrs = ''building'', distance = None\<rparr>] \<and>
   frames (snd (nearest_neighbor_heap 0 1 True \<lparr>frames = (\<lambda>_. [])
        (0 := [\<lparr>label = 0, geometry = (24, 60), attrs = ''building'', distance = None\<rparr>],
         1 := [\<lparr>label = 0, geometry = (24, 61), attrs = ''stop'', distance = None\<rparr>]),
       next_addr = 2\<rparr>)) 1
     = [\<lparr>label = 0, geometry = (24, 61), attrs = ''stop'', distance = None\<rparr>]"
proof -
  let ?s = "\<lparr>frames = (\<lambda>_. [])
        (0 := [\<lparr>label = 0, geometry = (24::real, 60::real), attrs = ''building'', distance = None\<rparr>],
         1 := [\<lparr>label = 0, geometry = (24, 61), attrs = ''stop'', distance = None\<rparr>]),
       next_addr = 2\<rparr>"
  have h1: "0 < next_addr ?s" by simp
  have h2: "1 < next_addr ?s" by simp
  from nearest_neighbor_keeps_inputs [OF h1 h2, of True]
  have "frames (snd (nearest_neighbor_heap 0 1 True ?s)) 0 = frames ?s 0"
    and "frames (snd (nearest_neighbor_heap 0 1 True ?s)) 1 = frames ?s 1"
    by blast+
  then show ?thesis using h1 h2 by simp
qed

text \<open>
  C10.  For every non-empty pair of frames, \<open>nearest_neighbor\<close> converts each Point as
  (longitude, latitude) = (x, y) and hands the pairs in that order to the metric, which
  reads the first component as the latitude.  So every returned distance is the Earth
  radius times the haversine formula evaluated with longitude and latitude exchanged in
  both points.  On the equator the exchanged formula agrees with the great-circle
  distance; in general it does not: for the two Points (0, 90) and (180, 90), both the
  north pole, the great-circle distance is 0 and the exchanged formula gives \<open>pi\<close>.
\<close>

theorem swapped_haversine:
  assumes "left_gdf \<noteq> []" and "right_gdf \<noteq> []"
  shows "(\<exists>res. nearest_neighbor left_gdf right_gdf True = Inr res \<and>
            length res = length left_gdf \<and>
            (\<forall>i<length left_gdf.
               geometry (res ! i) \<in> geometry ` set right_gdf \<and>
               distance (res ! i)
                 = Some (haversine_dist (to_radians (geometry (left_gdf ! i)))
                                        (to_radians (geometry (res ! i))) * earth_radius) \<and>
               distance (res ! i)
                 = Some (great_circle (prod.swap (geometry (left_gdf ! i)))
                                      (prod.swap (geometry (res ! i))) * earth_radius))) \<and>
         (\<forall>p q. haversine_dist (to_radians p) (to_radians q)
                  = great_circle (prod.swap p) (prod.swap q)) \<and>
         (\<forall>p q. snd p = 0 \<and> snd q = 0 \<longrightarrow>
                  great_circle (prod.swap p) (prod.swap q) = great_circle p q) \<and>
         great_circle (prod.swap (0, 90)) (prod.swap (180, 90)) \<noteq> great_circle (0, 90) (180, 90)"
proof -
  let ?res = "map (\<lambda>j. match_row right_gdf True j (geometry (left_gdf ! j))) [0..<length left_gdf]"
  have nn: "nearest_neighbor left_gdf right_gdf True = Inr ?res"
    using assms by (rule nearest_neighbor_Inr)
  have g: "\<And>j g. geometry (match_row right_gdf True j g) \<in> geometry ` set right_gdf"
    using nearest_idx_bound [OF assms(2)] by (simp add: match_row_def Let_def)
  have d: "\<And>j g. distance (match_row right_gdf True j g)
      = Some (great_circle (prod.swap g) (prod.swap (geometry (match_row right_gdf True j g)))
              * earth_radius)"
    by (rule distance_match_row)
  have 1: "\<exists>res. nearest_neighbor left_gdf right_gdf True = Inr res \<and>
            length res = length left_gdf \<and>
            (\<forall>i<length left_gdf.
               geometry (res ! i) \<in> geometry ` set right_gdf \<and>
               distance (res ! i)
                 = Some (haversine_dist (to_radians (geometry (left_gdf ! i)))
                                        (to_radians (geometry (res ! i))) * earth_radius) \<and>
               distance (res ! i)
                 = Some (great_circle (prod.swap (geometry (left_gdf ! i)))
                                      (prod.swap (geometry (res ! i))) * earth_radius))"
    unfolding nn using g d by (simp add: haversine_dist_to_radians)
  have 2: "\<forall>p q. haversine_dist (to_radians p) (to_radians q)
                  = great_circle (prod.swap p) (prod.swap q)"
    by (simp add: haversine_dist_to_radians)
  have 3: "\<forall>p q. snd p = 0 \<and> snd q = 0 \<longrightarrow>
                  great_circle (prod.swap p) (prod.swap q) = great_circle p q"
    by (simp add: great_circle_equator)
  have 4: "great_circle (prod.swap (0, 90)) (prod.swap (180, 90)) \<noteq> great_circle (0, 90) (180, 90)"
    by (simp add: great_circle_poles great_circle_poles_swapped)
  from 1 2 3 4 show ?thesis by (intro conjI)
qed

theorem swapped_haversine_witness:
  "[\<lparr>label = 0, geometry = (25, 60), attrs = ''building'', distance = None\<rparr>] \<noteq> [] \<and>
   [\<lparr>label = 0, geometry = (24, 61), attrs = ''stop'', distance = None\<rparr>] \<noteq> [] \<and>
   (\<exists>res. nearest_neighbor
             [\<lparr>label = 0, geometry = (25, 60), attrs = ''building'', distance = None\<rparr>]
             [\<lparr>label = 0, geometry = (24, 61), attrs = ''stop'', distance = None\<rparr>] True
           = Inr res \<and>
          length res = 1 \<and>
          distance (res ! 0)
            = Some (great_circle (60, 25) (prod.swap (geometry (res ! 0))) * earth_radius))"
proof -
  let ?b = "\<lparr>label = 0, geometry = (25::real, 60::real), attrs = ''building'', distance = None\<rparr>"
  let ?s = "\<lparr>label = 0, geometry = (24::real, 61::real), attrs = ''stop'', distance = None\<rparr>"
  have h1: "[?b] \<noteq> []" by simp
  have h2: "[?s] \<noteq> []" by simp
  from swapped_haversine [OF h1 h2, THEN conjunct1]
  obtain res where r: "nearest_neighbor [?b] [?s] True = Inr res"
    and l: "length res = length [?b]"
    and d: "\<forall>i<length [?b].
               geometry (res ! i) \<in> geometry ` set [?s] \<and>
               distance (res ! i)
                 = Some (haversine_dist (to_radians (geometry ([?b] ! i)))
                                        (to_radians (geometry (res ! i))) * earth_radius) \<and>
               distance (res ! i)
                 = Some (great_circle (prod.swap (geometry ([?b] ! i)))
                                      (prod.swap (geometry (res ! i))) * earth_radius)"
    by blast
  from l have l1: "length res = 1" by simp
  have "0 < length [?b]" by simp
  from d [rule_format, OF this] have "distance (res ! 0)
      = Some (great_circle (prod.swap (geometry ([?b] ! 0)))
                           (prod.swap (geometry (res ! 0))) * earth_radius)"
    by (elim conjE)
  then have "distance (res ! 0)
      = Some (great_circle (60, 25) (prod.swap (geometry (res ! 0))) * earth_radius)"
    by simp
  with h1 h2 r l1 show ?thesis by blast
qed

end
